theory Spec2Isabelle
  imports Main
begin

section \<open>Go strings\<close>

text \<open>
  A Go string is a sequence of bytes, and \<open>len\<close> counts bytes. The type \<open>string\<close> of HOL
  is a list of 8-bit characters, so a Go string is modelled by the list of its bytes.
\<close>

definition HasPrefix :: "string \<Rightarrow> string \<Rightarrow> bool" where
  \<comment> \<open>strings.HasPrefix(s, prefix): \<open>len(s) >= len(prefix) && s[:len(prefix)] == prefix\<close>\<close>
  "HasPrefix s p = (length p \<le> length s \<and> take (length p) s = p)"

definition TrimPrefix :: "string \<Rightarrow> string \<Rightarrow> string" where
  \<comment> \<open>strings.TrimPrefix(s, prefix)\<close>
  "TrimPrefix s p = (if HasPrefix s p then drop (length p) s else s)"

definition isASCII :: "string \<Rightarrow> bool" where
  \<comment> \<open>no byte is \<open>>= utf8.RuneSelf\<close>\<close>
  "isASCII s = (\<forall>c \<in> set s. (of_char c :: nat) < 128)"

definition lowerByte :: "char \<Rightarrow> char" where
  \<comment> \<open>\<open>if 'A' <= c && c <= 'Z' { c += 'a' - 'A' }\<close>\<close>
  "lowerByte c =
     (if (65::nat) \<le> of_char c \<and> (of_char c :: nat) \<le> 90
      then char_of ((of_char c :: nat) + 32) else c)"

definition ToLower :: "(string \<Rightarrow> string) \<Rightarrow> string \<Rightarrow> string" where
  \<comment> \<open>strings.ToLower(s). A string of ASCII bytes is lower-cased byte by byte; any other
      string goes through \<open>strings.Map(unicode.ToLower, s)\<close>, which reads the Unicode tables
      of the Go runtime: that mapping is the parameter \<open>um\<close>.\<close>
  "ToLower um s = (if isASCII s then map lowerByte s else um s)"

fun Replace :: "string \<Rightarrow> char \<Rightarrow> string \<Rightarrow> string" where
  \<comment> \<open>strings.Replace(s, old, new, -1) for a one-byte \<open>old\<close>: each occurrence of the byte,
      from left to right, is replaced by \<open>new\<close>.\<close>
  "Replace [] old new = []"
| "Replace (c # s) old new =
     (if c = old then new @ Replace s old new else c # Replace s old new)"

section \<open>The engine value and its construction\<close>

record Config =
  prefix :: string
  delimiter :: string

datatype error =
    BadDelimiterError string        \<comment> \<open>goconfig.New: "invalid delimiter %q: %w"\<close>
  | DelimiterError string           \<comment> \<open>cfgloader.New: "delimiter must contain exactly 1 character: %q"\<close>
  | LoadGetStringSlice string       \<comment> \<open>"Load GetStringSlice: %v"\<close>
  | LoadStringSliceConversion       \<comment> \<open>"Load string slice conversion error"\<close>
  | LoadFile string string          \<comment> \<open>"Load file %s: %v"\<close>
  | LoadEnv string                  \<comment> \<open>"Load env: %v"\<close>
  | LoadFlags string                \<comment> \<open>"Load flags: %v"\<close>
  | LoadUnmarshal string            \<comment> \<open>"Load unmarshal: %v"\<close>

definition New :: "string \<Rightarrow> string \<Rightarrow> error + Config" where
  \<comment> \<open>goconfig.New\<close>
  "New envPrefix flagDelimiter =
     (if length flagDelimiter \<noteq> 1 then Inl (BadDelimiterError flagDelimiter)
      else Inr \<lparr>prefix = envPrefix, delimiter = flagDelimiter\<rparr>)"

definition cfgloader_New :: "string \<Rightarrow> string \<Rightarrow> error + Config" where
  \<comment> \<open>cfgloader.New\<close>
  "cfgloader_New envPrefix flagDelimiter =
     (if length flagDelimiter \<noteq> 1 then Inl (DelimiterError flagDelimiter)
      else Inr \<lparr>prefix = envPrefix, delimiter = flagDelimiter\<rparr>)"

definition updateEnv :: "(string \<Rightarrow> string) \<Rightarrow> Config \<Rightarrow> string \<Rightarrow> string" where
  \<comment> \<open>Config.updateEnv, the same in both packages; \<open>um\<close> is the parameter of \<open>ToLower\<close>.\<close>
  "updateEnv um c s =
     Replace (ToLower um (TrimPrefix s (prefix c))) CHR ''_'' (delimiter c)"

section \<open>Collaborators\<close>

text \<open>
  \<open>Load\<close> delegates to the koanf store and its providers, to the flag set and to the
  decoder that binds the store onto the target. These are libraries outside the
  repository. They are modelled here by what \<open>Load\<close> uses of them.
\<close>

subsection \<open>Values and flag sets\<close>

datatype val = VInt int | VString string | VBool bool | VStrings "string list"

record flag =
  Name :: string
  Value :: val        \<comment> \<open>the current value: the default until the flag is set\<close>
  Changed :: bool     \<comment> \<open>set on the command line\<close>

type_synonym FlagSet = "flag list"
  \<comment> \<open>the defined flags, in the order \<open>VisitAll\<close> visits them\<close>

definition FileArgName :: string where
  "FileArgName = ''config''"

definition Lookup :: "FlagSet \<Rightarrow> string \<Rightarrow> flag option" where
  \<comment> \<open>f.Lookup(name): the flag of that name, or nil\<close>
  "Lookup f n = find (\<lambda>fl. Name fl = n) f"

definition GetStringSlice :: "FlagSet \<Rightarrow> string \<Rightarrow> string + string list" where
  \<comment> \<open>pflag: an error when the flag is not defined or is not of type stringSlice\<close>
  "GetStringSlice f n =
     (case Lookup f n of
        None \<Rightarrow> Inl ''flag accessed but not defined''
      | Some fl \<Rightarrow>
          (case Value fl of
             VStrings ss \<Rightarrow> Inr ss
           | _ \<Rightarrow> Inl ''trying to get stringSlice value of flag of another type''))"

fun Join :: "string list \<Rightarrow> string \<Rightarrow> string" where
  \<comment> \<open>strings.Join(elems, sep)\<close>
  "Join [] sep = []"
| "Join [p] sep = p"
| "Join (p # q # ps) sep = p @ sep @ Join (q # ps) sep"

function utoa :: "nat \<Rightarrow> string" where
  "utoa n = (if n < 10 then [char_of (48 + n)] else utoa (n div 10) @ [char_of (48 + n mod 10)])"
  by pat_completeness auto
termination
  by (relation "measure id") auto

definition Itoa :: "int \<Rightarrow> string" where
  \<comment> \<open>strconv.Itoa\<close>
  "Itoa i = (if i < 0 then CHR ''-'' # utoa (nat (- i)) else utoa (nat i))"

definition StringSlice_String :: "string list \<Rightarrow> string" where
  \<comment> \<open>Modelled from the spec: pkg/stringslice, the type of the option "config" in
      cfgloader, is missing from the sources. The option is a comma-separated string list,
      and the package's test expects \<open>String()\<close> to join the pieces with a comma.\<close>
  "StringSlice_String ss = Join ss '',''"

fun String :: "val \<Rightarrow> string" where
  \<comment> \<open>flag.Value.String() of the standard flag package\<close>
  "String (VInt i) = Itoa i"
| "String (VString s) = s"
| "String (VBool b) = (if b then ''true'' else ''false'')"
| "String (VStrings ss) = StringSlice_String ss"

subsection \<open>The koanf store\<close>

text \<open>
  The store is kept flattened, as \<open>ko.All()\<close> shows it: a map from key paths joined by
  the store's delimiter to leaf values. A provider hands over a nested map, here the list
  of its leaves with their paths, and \<open>ko.Load\<close> merges it leaf by leaf, a later leaf
  replacing an earlier one under the same key. A key that is a leaf in one source and an
  inner node in another is outside this model.
\<close>

type_synonym confmap = "(string list \<times> val) list"
type_synonym provider = "string + confmap"
  \<comment> \<open>what a provider's \<open>Read\<close> returns: an error or the nested map\<close>

record koanf =
  Delim :: string
  conf :: "string \<rightharpoonup> val"

definition koanf_New :: "string \<Rightarrow> koanf" where
  \<comment> \<open>koanf.New(delim): an empty store\<close>
  "koanf_New delim = \<lparr>Delim = delim, conf = Map.empty\<rparr>"

definition Exists :: "koanf \<Rightarrow> string \<Rightarrow> bool" where
  \<comment> \<open>ko.Exists(key): the key is in the store\<close>
  "Exists ko key = (conf ko key \<noteq> None)"

fun merge :: "koanf \<Rightarrow> confmap \<Rightarrow> koanf" where
  \<comment> \<open>ko.merge(c): each leaf of \<open>c\<close> is stored under its path joined by the delimiter\<close>
  "merge ko [] = ko"
| "merge ko ((path, v) # m) = merge (ko\<lparr>conf := (conf ko)(Join path (Delim ko) \<mapsto> v)\<rparr>) m"

definition koanf_Load :: "koanf \<Rightarrow> provider \<Rightarrow> string + koanf" where
  \<comment> \<open>ko.Load(p, pa): the provider's error, or the store with the provider's map merged in\<close>
  "koanf_Load ko p = (case p of Inl err \<Rightarrow> Inl err | Inr m \<Rightarrow> Inr (merge ko m))"

function keyParts :: "string \<Rightarrow> string \<Rightarrow> string \<Rightarrow> string list" where
  \<comment> \<open>\<open>keyParts [] k delim\<close> is strings.Split(k, delim) for a non-empty \<open>delim\<close>; with an empty
      \<open>delim\<close> the key is not split. The first argument is the part being read, reversed.\<close>
  "keyParts cur [] delim = [rev cur]"
| "keyParts cur (c # k) delim =
     (if delim \<noteq> [] \<and> HasPrefix (c # k) delim
      then rev cur # keyParts [] (drop (length delim) (c # k)) delim
      else keyParts (c # cur) k delim)"
  by pat_completeness auto
termination
  by (relation "measure (\<lambda>(cur, k, delim). length k)") auto

definition Unflatten :: "(string \<times> val) list \<Rightarrow> string \<Rightarrow> confmap" where
  \<comment> \<open>maps.Unflatten(mp, delim)\<close>
  "Unflatten mp delim = map (\<lambda>(k, v). (keyParts [] k delim, v)) mp"

subsection \<open>Providers\<close>

definition eligible :: "string \<Rightarrow> string \<Rightarrow> string \<Rightarrow> bool" where
  \<comment> \<open>the filter of env.Provider's Read on the entry \<open>name=value\<close> of os.Environ():
      \<open>if e.prefix != "" { if strings.HasPrefix(k, e.prefix) { keep } } else { keep }\<close>\<close>
  "eligible pfx n v = (pfx = [] \<or> HasPrefix (n @ ''='' @ v) pfx)"

definition env_Read ::
  "(string \<times> string) list \<Rightarrow> string \<Rightarrow> (string \<Rightarrow> string) \<Rightarrow> (string \<times> val) list" where
  \<comment> \<open>the flat map \<open>mp\<close> that env.Provider(prefix, delim, cb).Read() fills from the
      environment \<open>environ\<close> (name, value), in the order of assignment: an eligible entry
      is stored under \<open>cb(name)\<close>, and an entry whose key is empty is dropped\<close>
  "env_Read environ pfx cb =
     map (\<lambda>(n, v). (cb n, VString v))
       (filter (\<lambda>(n, v). cb n \<noteq> [])
          (filter (\<lambda>(n, v). eligible pfx n v) environ))"

definition env_Provider ::
  "(string \<times> string) list \<Rightarrow> string \<Rightarrow> string \<Rightarrow> (string \<Rightarrow> string) \<Rightarrow> provider" where
  \<comment> \<open>env.Provider(prefix, delim, cb).Read(): \<open>return maps.Unflatten(mp, e.delim), nil\<close>\<close>
  "env_Provider environ pfx delim cb = Inr (Unflatten (env_Read environ pfx cb) delim)"

definition posflag_Read :: "FlagSet \<Rightarrow> koanf \<Rightarrow> (string \<times> val) list" where
  \<comment> \<open>the flat map \<open>mp\<close> of posflag.Provider(f, delim, ko).Read(): every flag that was
      changed, and every unchanged flag whose name is not yet a key of \<open>ko\<close>, under its
      name and with its typed value\<close>
  "posflag_Read f ko =
     map (\<lambda>fl. (Name fl, Value fl))
       (filter (\<lambda>fl. Changed fl \<or> \<not> Exists ko (Name fl)) f)"

definition posflag_Provider :: "FlagSet \<Rightarrow> string \<Rightarrow> koanf \<Rightarrow> provider" where
  \<comment> \<open>posflag.Provider(f, delim, ko).Read(): \<open>return maps.Unflatten(mp, p.delim), nil\<close>\<close>
  "posflag_Provider f delim ko = Inr (Unflatten (posflag_Read f ko) delim)"

definition basicflag_Read :: "FlagSet \<Rightarrow> (string \<times> val) list" where
  \<comment> \<open>the flat map \<open>mp\<close> of basicflag.Provider(f, delim).Read(): every defined flag, under
      its name and with \<open>Value.String()\<close>\<close>
  "basicflag_Read f = map (\<lambda>fl. (Name fl, VString (String (Value fl)))) f"

definition basicflag_Provider :: "FlagSet \<Rightarrow> string \<Rightarrow> provider" where
  \<comment> \<open>basicflag.Provider(f, delim).Read(): \<open>return maps.Unflatten(mp, p.delim), nil\<close>\<close>
  "basicflag_Provider f delim = Inr (Unflatten (basicflag_Read f) delim)"

record 'cfg world =
  Environ :: "(string \<times> string) list"
    \<comment> \<open>os.Environ()\<close>
  ReadBytes :: "string \<Rightarrow> string + string"
    \<comment> \<open>file.Provider(path).ReadBytes(): an error or the content\<close>
  Parse :: "string \<Rightarrow> string + confmap"
    \<comment> \<open>yaml.Parser().Unmarshal(bytes): an error or the decoded tree\<close>
  Decode :: "(string \<rightharpoonup> val) \<Rightarrow> 'cfg \<Rightarrow> string + 'cfg"
    \<comment> \<open>the decoder behind ko.Unmarshal("", cfg): an error or the populated target\<close>
  unicodeToLower :: "string \<Rightarrow> string"
    \<comment> \<open>strings.Map(unicode.ToLower, s)\<close>

definition file_Provider :: "'cfg world \<Rightarrow> string \<Rightarrow> provider" where
  \<comment> \<open>file.Provider(path) read through yaml.Parser()\<close>
  "file_Provider w path =
     (case ReadBytes w path of Inl err \<Rightarrow> Inl err | Inr b \<Rightarrow> Parse w b)"

section \<open>Load\<close>

datatype 'cfg outcome =
    Loaded 'cfg        \<comment> \<open>\<open>return nil\<close>, the target populated\<close>
  | Failed error       \<comment> \<open>\<open>return fmt.Errorf(...)\<close>\<close>
  | Exit error         \<comment> \<open>\<open>log.Fatalf(...)\<close>: the message is logged and the process exits\<close>

fun loadFiles :: "'cfg world \<Rightarrow> string list \<Rightarrow> koanf \<Rightarrow> string list \<times> (error + koanf)" where
  \<comment> \<open>\<open>for _, c := range ss { if err := k.Load(file.Provider(c), yaml.Parser()); ... }\<close>,
      the same in both packages. The first component lists the files read, in order.\<close>
  "loadFiles w [] k = ([], Inr k)"
| "loadFiles w (c # cs) k =
     (case koanf_Load k (file_Provider w c) of
        Inl err \<Rightarrow> ([c], Inl (LoadFile c err))
      | Inr k' \<Rightarrow> (case loadFiles w cs k' of (opened, r) \<Rightarrow> (c # opened, r)))"

definition fileStep :: "'cfg world \<Rightarrow> FlagSet \<Rightarrow> koanf \<Rightarrow> string list \<times> (error + koanf)" where
  \<comment> \<open>goconfig: \<open>if p := f.Lookup(FileArgName); p != nil { ss, err := f.GetStringSlice(...) ... }\<close>\<close>
  "fileStep w f k =
     (case Lookup f FileArgName of
        None \<Rightarrow> ([], Inr k)
      | Some p \<Rightarrow>
          (case GetStringSlice f FileArgName of
             Inl err \<Rightarrow> ([], Inl (LoadGetStringSlice err))
           | Inr ss \<Rightarrow> loadFiles w ss k))"

definition stringSliceValue :: "val \<Rightarrow> string list option" where
  \<comment> \<open>the type assertion \<open>c.Value.(*stringslice.StringSlice)\<close>\<close>
  "stringSliceValue v = (case v of VStrings ss \<Rightarrow> Some ss | _ \<Rightarrow> None)"

definition cfgloader_fileStep ::
  "'cfg world \<Rightarrow> FlagSet \<Rightarrow> koanf \<Rightarrow> string list \<times> (error + koanf)" where
  \<comment> \<open>cfgloader: \<open>if c := f.Lookup(FileArgName); c != nil { ss, ok := c.Value.(...) ... }\<close>\<close>
  "cfgloader_fileStep w f k =
     (case Lookup f FileArgName of
        None \<Rightarrow> ([], Inr k)
      | Some fl \<Rightarrow>
          (case stringSliceValue (Value fl) of
             None \<Rightarrow> ([], Inl LoadStringSliceConversion)
           | Some ss \<Rightarrow> loadFiles w ss k))"

definition envStep ::
  "(string \<Rightarrow> string \<Rightarrow> (string \<Rightarrow> string) \<Rightarrow> provider) \<Rightarrow>
   'cfg world \<Rightarrow> Config \<Rightarrow> koanf \<Rightarrow> string + koanf" where
  \<comment> \<open>\<open>k.Load(env.Provider(c.prefix, c.delimiter, c.updateEnv), nil)\<close>, with the provider
      as the parameter \<open>envP\<close>\<close>
  "envStep envP w c k =
     koanf_Load k (envP (prefix c) (delimiter c) (updateEnv (unicodeToLower w) c))"

definition flagStep ::
  "(FlagSet \<Rightarrow> string \<Rightarrow> koanf \<Rightarrow> provider) \<Rightarrow> FlagSet \<Rightarrow> koanf \<Rightarrow> string + koanf" where
  \<comment> \<open>goconfig: \<open>k.Load(posflag.Provider(f, ".", k), nil)\<close>, with the provider as the
      parameter \<open>flagP\<close>\<close>
  "flagStep flagP f k = koanf_Load k (flagP f ''.'' k)"

definition cfgloader_flagStep ::
  "(FlagSet \<Rightarrow> string \<Rightarrow> provider) \<Rightarrow> Config \<Rightarrow> FlagSet \<Rightarrow> koanf \<Rightarrow> string + koanf" where
  \<comment> \<open>cfgloader: \<open>k.Load(basicflag.Provider(f, c.delimiter), nil)\<close>\<close>
  "cfgloader_flagStep flagP c f k = koanf_Load k (flagP f (delimiter c))"

definition materialize :: "'cfg world \<Rightarrow> (string \<rightharpoonup> val) \<Rightarrow> 'cfg \<Rightarrow> 'cfg outcome" where
  \<comment> \<open>\<open>if err := k.Unmarshal("", cfg); err != nil { return fmt.Errorf(...) }; return nil\<close>\<close>
  "materialize w st cfg =
     (case Decode w st cfg of
        Inl err \<Rightarrow> Failed (LoadUnmarshal err)
      | Inr cfg' \<Rightarrow> Loaded cfg')"

definition LoadWith ::
  "(string \<Rightarrow> string \<Rightarrow> (string \<Rightarrow> string) \<Rightarrow> provider) \<Rightarrow>
   (FlagSet \<Rightarrow> string \<Rightarrow> koanf \<Rightarrow> provider) \<Rightarrow>
   'cfg world \<Rightarrow> Config \<Rightarrow> FlagSet \<Rightarrow> 'cfg \<Rightarrow> string list \<times> 'cfg outcome" where
  \<comment> \<open>goconfig's Config.Load, with the environment provider and the flag provider as
      parameters. The first component of the result lists the files read.\<close>
  "LoadWith envP flagP w c f cfg =
     (case fileStep w f (koanf_New (delimiter c)) of
        (opened, Inl e) \<Rightarrow> (opened, Failed e)
      | (opened, Inr k1) \<Rightarrow>
          (opened,
           case envStep envP w c k1 of
             Inl err \<Rightarrow> Failed (LoadEnv err)
           | Inr k2 \<Rightarrow>
               (case flagStep flagP f k2 of
                  Inl err \<Rightarrow> Exit (LoadFlags err)
                | Inr k3 \<Rightarrow> materialize w (conf k3) cfg)))"

definition Load :: "'cfg world \<Rightarrow> Config \<Rightarrow> FlagSet \<Rightarrow> 'cfg \<Rightarrow> string list \<times> 'cfg outcome" where
  \<comment> \<open>goconfig's Config.Load\<close>
  "Load w c f cfg = LoadWith (env_Provider (Environ w)) posflag_Provider w c f cfg"

definition cfgloader_LoadWith ::
  "(string \<Rightarrow> string \<Rightarrow> (string \<Rightarrow> string) \<Rightarrow> provider) \<Rightarrow>
   (FlagSet \<Rightarrow> string \<Rightarrow> provider) \<Rightarrow>
   'cfg world \<Rightarrow> Config \<Rightarrow> FlagSet \<Rightarrow> 'cfg \<Rightarrow> string list \<times> 'cfg outcome" where
  \<comment> \<open>cfgloader's Config.Load, with the environment provider and the flag provider as
      parameters\<close>
  "cfgloader_LoadWith envP flagP w c f cfg =
     (case cfgloader_fileStep w f (koanf_New (delimiter c)) of
        (opened, Inl e) \<Rightarrow> (opened, Failed e)
      | (opened, Inr k1) \<Rightarrow>
          (opened,
           case envStep envP w c k1 of
             Inl err \<Rightarrow> Failed (LoadEnv err)
           | Inr k2 \<Rightarrow>
               (case cfgloader_flagStep flagP c f k2 of
                  Inl err \<Rightarrow> Failed (LoadFlags err)
                | Inr k3 \<Rightarrow> materialize w (conf k3) cfg)))"

definition cfgloader_Load ::
  "'cfg world \<Rightarrow> Config \<Rightarrow> FlagSet \<Rightarrow> 'cfg \<Rightarrow> string list \<times> 'cfg outcome" where
  \<comment> \<open>cfgloader's Config.Load\<close>
  "cfgloader_Load w c f cfg =
     cfgloader_LoadWith (env_Provider (Environ w)) basicflag_Provider w c f cfg"

section \<open>Notions of the specification\<close>

definition flagKey :: "string \<Rightarrow> string \<Rightarrow> string" where
  \<comment> \<open>the store key of a flag read by \<open>posflag.Provider(f, ".", k)\<close> into a store with the
      delimiter \<open>d\<close>: the dot-separated parts of the name, joined by \<open>d\<close>\<close>
  "flagKey d name = Join (keyParts [] name ''.'') d"




definition contb :: "char \<Rightarrow> bool" where
  \<comment> \<open>a UTF-8 continuation byte\<close>
  "contb c = ((128::nat) \<le> of_char c \<and> (of_char c :: nat) \<le> 191)"

definition between :: "nat \<Rightarrow> nat \<Rightarrow> char \<Rightarrow> bool" where
  "between lo hi c = (lo \<le> of_char c \<and> (of_char c :: nat) \<le> hi)"

fun runeWidth :: "string \<Rightarrow> nat" where
  \<comment> \<open>the number of bytes of the first rune, as utf8.DecodeRuneInString reports it: an
      invalid or truncated encoding is a rune of width 1\<close>
  "runeWidth [] = 0"
| "runeWidth (c0 # cs) =
     (let x = (of_char c0 :: nat) in
      if x < 128 then 1
      else if 194 \<le> x \<and> x \<le> 223 then
        (case cs of c1 # _ \<Rightarrow> if contb c1 then 2 else 1 | _ \<Rightarrow> 1)
      else if 224 \<le> x \<and> x \<le> 239 then
        (case cs of
           c1 # c2 # _ \<Rightarrow>
             if between (if x = 224 then 160 else 128) (if x = 237 then 159 else 191) c1
                \<and> contb c2 then 3 else 1
         | _ \<Rightarrow> 1)
      else if 240 \<le> x \<and> x \<le> 244 then
        (case cs of
           c1 # c2 # c3 # _ \<Rightarrow>
             if between (if x = 240 then 144 else 128) (if x = 244 then 143 else 191) c1
                \<and> contb c2 \<and> contb c3 then 4 else 1
         | _ \<Rightarrow> 1)
      else 1)"

function RuneCountInString :: "string \<Rightarrow> nat" where
  \<comment> \<open>the specification's measure of a delimiter, in runes: utf8.RuneCountInString\<close>
  "RuneCountInString s =
     (if s = [] then 0 else Suc (RuneCountInString (drop (max 1 (runeWidth s)) s)))"
  by pat_completeness auto
termination
  by (relation "measure length") auto

section \<open>The test suite's target and an example world\<close>

record testConfig1 =
  NestedVal :: int      \<comment> \<open>\<open>koanf:"nestedvalue"\<close>\<close>

record testConfig =
  Value1 :: int         \<comment> \<open>\<open>koanf:"value1"\<close>\<close>
  Value2 :: int         \<comment> \<open>\<open>koanf:"value2"\<close>\<close>
  Value3 :: int         \<comment> \<open>\<open>koanf:"value3"\<close>\<close>
  Nested :: testConfig1 \<comment> \<open>\<open>koanf:"nested"\<close>\<close>

definition zeroConfig :: testConfig where
  "zeroConfig = \<lparr>Value1 = 0, Value2 = 0, Value3 = 0, Nested = \<lparr>NestedVal = 0\<rparr>\<rparr>"

definition digitsVal :: "string \<Rightarrow> int option" where
  "digitsVal s =
     (if s \<noteq> [] \<and> (\<forall>c \<in> set s. between 48 57 c)
      then Some (int (foldl (\<lambda>a c. 10 * a + (of_char c - 48)) 0 s)) else None)"

definition decodeInt :: "val \<Rightarrow> string + int" where
  \<comment> \<open>an integer field takes an integer, or a string of decimal digits with an optional
      sign; the test suite expects an error for "this is not an integer"\<close>
  "decodeInt v =
     (case v of
        VInt i \<Rightarrow> Inr i
      | VString s \<Rightarrow>
          (case (case s of CHR ''-'' # t \<Rightarrow> map_option uminus (digitsVal t) | _ \<Rightarrow> digitsVal s) of
             None \<Rightarrow> Inl ''cannot parse as int''
           | Some i \<Rightarrow> Inr i)
      | VBool b \<Rightarrow> Inr (if b then 1 else 0)
      | VStrings ss \<Rightarrow> Inl ''expected type int'')"

definition bindInt ::
  "(string \<rightharpoonup> val) \<Rightarrow> string \<Rightarrow> (int \<Rightarrow> 'c \<Rightarrow> 'c) \<Rightarrow> string + 'c \<Rightarrow> string + 'c" where
  \<comment> \<open>a field whose key is absent from the store is left as it is\<close>
  "bindInt st key upd r =
     (case r of
        Inl err \<Rightarrow> Inl err
      | Inr cfg \<Rightarrow>
          (case st key of
             None \<Rightarrow> Inr cfg
           | Some v \<Rightarrow> (case decodeInt v of Inl err \<Rightarrow> Inl err | Inr i \<Rightarrow> Inr (upd i cfg))))"

definition testDecode :: "(string \<rightharpoonup> val) \<Rightarrow> testConfig \<Rightarrow> string + testConfig" where
  \<comment> \<open>binds a store with the delimiter "." onto testConfig by the field tags; keys that
      match no tag are ignored\<close>
  "testDecode st cfg =
     bindInt st ''nested.nestedvalue'' (\<lambda>i c. c\<lparr>Nested := \<lparr>NestedVal = i\<rparr>\<rparr>)
       (bindInt st ''value3'' (\<lambda>i c. c\<lparr>Value3 := i\<rparr>)
          (bindInt st ''value2'' (\<lambda>i c. c\<lparr>Value2 := i\<rparr>)
             (bindInt st ''value1'' (\<lambda>i c. c\<lparr>Value1 := i\<rparr>) (Inr cfg))))"

definition testWorld :: "(string \<times> string) list \<Rightarrow> testConfig world" where
  \<comment> \<open>a world for examples: the given environment, and the files of the test suite's
      testdata directory with contents that are what the tests say of them (good.json sets
      value1 to 101 and nested.nestedvalue to 102, empty.json sets nothing, bad.json does
      not decode)\<close>
  "testWorld environ =
     \<lparr>Environ = environ,
      ReadBytes = (\<lambda>path.
        if path = ''testdata/good.json'' then Inr ''{value1: 101, nested: {nestedvalue: 102}}''
        else if path = ''testdata/empty.json'' then Inr ''{}''
        else if path = ''testdata/bad.json'' then Inr ''{''
        else Inl ''no such file or directory''),
      Parse = (\<lambda>b.
        if b = ''{value1: 101, nested: {nestedvalue: 102}}''
        then Inr [([''value1''], VInt 101), ([''nested'', ''nestedvalue''], VInt 102)]
        else if b = ''{}'' then Inr []
        else Inl ''cannot decode''),
      Decode = testDecode,
      unicodeToLower = (\<lambda>s. s)\<rparr>"

definition testEngine :: Config where
  \<comment> \<open>the engine of the tests: \<open>New("TEST_", ".")\<close>\<close>
  "testEngine = \<lparr>prefix = ''TEST_'', delimiter = ''.''\<rparr>"

definition intFlag :: "string \<Rightarrow> int \<Rightarrow> bool \<Rightarrow> flag" where
  "intFlag n i ch = \<lparr>Name = n, Value = VInt i, Changed = ch\<rparr>"

definition configFlag :: "string list \<Rightarrow> flag" where
  \<comment> \<open>the option "config", set on the command line when files are given\<close>
  "configFlag files = \<lparr>Name = ''config'', Value = VStrings files, Changed = (files \<noteq> [])\<rparr>"

definition precedenceWorld :: "testConfig world" where
  \<comment> \<open>the environment of TestEnvIsAfterFile and TestFlagIsAfterEnv: TEST_VALUE1 is set\<close>
  "precedenceWorld = testWorld [(''TEST_VALUE1'', ''102'')]"

definition precedenceFlags :: FlagSet where
  \<comment> \<open>the command line \<open>--config=testdata/good.json --value1=103\<close>\<close>
  "precedenceFlags = [configFlag [''testdata/good.json''], intFlag ''value1'' 103 True]"

definition defaultFlags :: FlagSet where
  \<comment> \<open>the flag set of TestLoadViaFlag, nothing given on the command line\<close>
  "defaultFlags = [intFlag ''nested.nestedvalue'' 2 False, intFlag ''value1'' 1 False]"

section \<open>Strings: auxiliary facts\<close>

lemmas char_eval = char_of_def bit_Suc_0_iff

lemma HasPrefix_iff_take: "HasPrefix s p \<longleftrightarrow> take (length p) s = p"
proof -
  have "length p \<le> length s" if "take (length p) s = p"
  proof -
    from that have "length (take (length p) s) = length p" by simp
    then show ?thesis by simp
  qed
  then show ?thesis by (auto simp: HasPrefix_def)
qed


lemma Replace_concat:
  "Replace s old new = concat (map (\<lambda>ch. if ch = old then new else [ch]) s)"
  by (induction s) simp_all

lemma Replace_single:
  "Replace s old [d] = map (\<lambda>ch. if ch = old then d else ch) s"
  by (induction s) simp_all

lemma lowerByte_underscore: "lowerByte ch = CHR ''_'' \<longleftrightarrow> ch = CHR ''_''"
proof
  assume "lowerByte ch = CHR ''_''"
  then show "ch = CHR ''_''"
    by (cases "(65::nat) \<le> of_char ch \<and> (of_char ch :: nat) \<le> 90")
       (auto simp: lowerByte_def dest!: arg_cong[where f="of_char :: char \<Rightarrow> nat"])
next
  assume "ch = CHR ''_''"
  then show "lowerByte ch = CHR ''_''" by (simp add: lowerByte_def)
qed

lemma isASCII_drop: "isASCII s \<Longrightarrow> isASCII (drop n s)"
  by (auto simp: isASCII_def dest: in_set_dropD)

section \<open>Construction\<close>

text \<open>
  C3, as the code has it. \<open>New p d\<close> fails exactly when the length of \<open>d\<close> in bytes is not 1,
  in both packages; on success the engine holds exactly \<open>p\<close> and \<open>d\<close>. The empty delimiter and
  \<open>"ab"\<close> are rejected. \<open>New\<close> is a function of its two arguments and returns a value: it has
  no effect.
\<close>

theorem New_delimiter_length:
  "(isl (New p d) \<longleftrightarrow> length d \<noteq> 1) \<and>
   (\<forall>c. New p d = Inr c \<longleftrightarrow> length d = 1 \<and> c = \<lparr>prefix = p, delimiter = d\<rparr>) \<and>
   (isl (cfgloader_New p d) \<longleftrightarrow> length d \<noteq> 1) \<and>
   (\<forall>c. cfgloader_New p d = Inr c \<longleftrightarrow> length d = 1 \<and> c = \<lparr>prefix = p, delimiter = d\<rparr>) \<and>
   isl (New p '''') \<and> isl (New p ''ab'')"
  by (auto simp: New_def cfgloader_New_def)

text \<open>
  C3 as the specification states it measures the delimiter in runes. The letter e
  with an acute accent is one rune of two bytes, \<open>0xC3 0xA9\<close>: \<open>New\<close> rejects it.
\<close>

theorem New_single_rune_counterexample:
  "\<not> (isl (New ''TEST_'' [CHR 0xC3, CHR 0xA9]) \<longleftrightarrow> RuneCountInString [CHR 0xC3, CHR 0xA9] \<noteq> 1)"
  by (simp add: New_def contb_def)

section \<open>Normalization of environment names\<close>

text \<open>
  C6. \<open>updateEnv\<close> removes the prefix only when the first bytes of the name are exactly the
  prefix, lower-cases what remains and then replaces each underscore by the delimiter, one
  for one. For a name of ASCII bytes and a delimiter of one byte \<open>d\<close> the result is the
  remainder mapped byte by byte, so no underscore is collapsed. The function has no error
  result.
\<close>

theorem updateEnv_normalizes:
  "updateEnv um c s =
     concat (map (\<lambda>ch. if ch = CHR ''_'' then delimiter c else [ch])
       (ToLower um (if take (length (prefix c)) s = prefix c then drop (length (prefix c)) s else s)))
   \<and> (isASCII s \<longrightarrow> delimiter c = [d] \<longrightarrow>
        updateEnv um c s =
          map (\<lambda>ch. if ch = CHR ''_'' then d else lowerByte ch)
            (if take (length (prefix c)) s = prefix c then drop (length (prefix c)) s else s))"
  by (auto simp: updateEnv_def TrimPrefix_def HasPrefix_iff_take Replace_concat Replace_single
      ToLower_def isASCII_drop lowerByte_underscore simp flip: Replace_concat)

theorem updateEnv_normalizes_witness:
  "isASCII ''TEST_NESTED_VAL__'' \<and> delimiter testEngine = ''.'' \<and>
   updateEnv (\<lambda>s. s) testEngine ''TEST_NESTED_VAL__'' = ''nested.val..'' \<and>
   updateEnv (\<lambda>s. s) testEngine ''test_VALUE'' = ''test.value''"
proof -
  have a1: "isASCII ''TEST_NESTED_VAL__''" and a2: "isASCII ''test_VALUE''"
    by (simp_all add: isASCII_def)
  have d: "delimiter testEngine = [CHR ''.'']"
    by (simp add: testEngine_def)
  have "updateEnv (\<lambda>s. s) testEngine ''TEST_NESTED_VAL__'' = ''nested.val..''"
    using updateEnv_normalizes [THEN conjunct2, rule_format, OF a1 d, of "\<lambda>s. s"]
    by (simp add: testEngine_def lowerByte_def char_eval)
  moreover have "updateEnv (\<lambda>s. s) testEngine ''test_VALUE'' = ''test.value''"
    using updateEnv_normalizes [THEN conjunct2, rule_format, OF a2 d, of "\<lambda>s. s"]
    by (simp add: testEngine_def lowerByte_def char_eval)
  ultimately show ?thesis using a1 d by simp
qed

section \<open>The store: auxiliary facts\<close>

lemma Delim_merge: "Delim (merge ko m) = Delim ko"
  by (induction m arbitrary: ko) auto

lemma conf_merge:
  "conf (merge ko m) = conf ko ++ map_of (rev (map (\<lambda>(p, v). (Join p (Delim ko), v)) m))"
proof (induction m arbitrary: ko)
  case Nil
  then show ?case by simp
next
  case (Cons a m)
  obtain p v where a: "a = (p, v)" by (cases a)
  show ?case
    by (simp add: a Cons.IH map_of_append)
       (auto simp: map_add_def fun_eq_iff split: option.splits)
qed

lemma keyParts_nonempty: "keyParts cur k d \<noteq> []"
  by (induction cur k d rule: keyParts.induct) auto

lemma Join_Cons: "xs \<noteq> [] \<Longrightarrow> Join (x # xs) d = x @ d @ Join xs d"
  by (cases xs) auto

lemma Join_keyParts: "Join (keyParts cur k d) d = rev cur @ k"
proof (induction cur k d rule: keyParts.induct)
  case (1 cur delim)
  then show ?case by simp
next
  case (2 cur c k delim)
  show ?case
  proof (cases "delim \<noteq> [] \<and> HasPrefix (c # k) delim")
    case True
    then have "take (length delim) (c # k) = delim" by (simp add: HasPrefix_def)
    then have "delim @ drop (length delim) (c # k) = c # k"
      by (metis append_take_drop_id)
    with True 2 show ?thesis
      by (simp add: Join_Cons keyParts_nonempty del: drop_Suc_Cons)
  next
    case False
    with 2 show ?thesis by auto
  qed
qed

lemma conf_merge_Unflatten:
  "conf (merge ko (Unflatten mp delim)) =
     conf ko ++ map_of (rev (map (\<lambda>(k, v). (Join (keyParts [] k delim) (Delim ko), v)) mp))"
  by (simp add: conf_merge Unflatten_def case_prod_unfold comp_def)

lemma conf_merge_Unflatten_same:
  "Delim ko = delim \<Longrightarrow> conf (merge ko (Unflatten mp delim)) = conf ko ++ map_of (rev mp)"
  by (simp add: conf_merge_Unflatten Join_keyParts)

lemma conf_merge_Unflatten_dot:
  "conf (merge ko (Unflatten mp ''.'')) =
     conf ko ++ map_of (rev (map (\<lambda>(k, v). (flagKey (Delim ko) k, v)) mp))"
  by (simp add: conf_merge_Unflatten flagKey_def)





section \<open>The steps of Load: auxiliary facts\<close>

lemma koanf_Load_Delim: "koanf_Load k p = Inr k' \<Longrightarrow> Delim k' = Delim k"
  by (auto simp: koanf_Load_def Delim_merge split: sum.splits)

lemma loadFiles_Delim: "loadFiles w ss k = (opened, Inr k') \<Longrightarrow> Delim k' = Delim k"
proof (induction ss arbitrary: k opened)
  case Nil
  then show ?case by simp
next
  case (Cons c cs)
  then show ?case
    by (auto split: sum.splits prod.splits dest: koanf_Load_Delim)
qed

lemma fileStep_Delim: "fileStep w f k = (opened, Inr k') \<Longrightarrow> Delim k' = Delim k"
  by (auto simp: fileStep_def split: option.splits sum.splits dest: loadFiles_Delim)

lemma cfgloader_fileStep_Delim:
  "cfgloader_fileStep w f k = (opened, Inr k') \<Longrightarrow> Delim k' = Delim k"
  by (auto simp: cfgloader_fileStep_def split: option.splits dest: loadFiles_Delim)

lemma file_Provider_Environ [simp]: "file_Provider (w\<lparr>Environ := e\<rparr>) path = file_Provider w path"
  by (simp add: file_Provider_def split: sum.splits)

lemma loadFiles_Environ [simp]: "loadFiles (w\<lparr>Environ := e\<rparr>) ss k = loadFiles w ss k"
  by (induction ss arbitrary: k) (simp_all split: sum.splits)

lemma fileStep_Environ [simp]: "fileStep (w\<lparr>Environ := e\<rparr>) f k = fileStep w f k"
  by (simp add: fileStep_def split: option.splits sum.splits)

lemma materialize_Environ [simp]: "materialize (w\<lparr>Environ := e\<rparr>) st cfg = materialize w st cfg"
  by (simp add: materialize_def)




lemma envStep_env:
  "Delim k = delimiter c \<Longrightarrow>
   \<exists>k'. envStep (env_Provider E) w c k = Inr k' \<and> Delim k' = Delim k \<and>
     conf k' = conf k ++ map_of (rev (env_Read E (prefix c) (updateEnv (unicodeToLower w) c)))"
  by (simp add: envStep_def env_Provider_def koanf_Load_def Delim_merge conf_merge_Unflatten_same)

lemma flagStep_posflag:
  "\<exists>k'. flagStep posflag_Provider f k = Inr k' \<and> Delim k' = Delim k \<and>
     conf k' = conf k ++ map_of (rev (map (\<lambda>(n, v). (flagKey (Delim k) n, v)) (posflag_Read f k)))"
  by (simp add: flagStep_def posflag_Provider_def koanf_Load_def Delim_merge conf_merge_Unflatten_dot)

lemma cfgloader_flagStep_basicflag:
  "Delim k = delimiter c \<Longrightarrow>
   \<exists>k'. cfgloader_flagStep basicflag_Provider c f k = Inr k' \<and> Delim k' = Delim k \<and>
     conf k' = conf k ++ map_of (rev (basicflag_Read f))"
  by (simp add: cfgloader_flagStep_def basicflag_Provider_def koanf_Load_def Delim_merge
      conf_merge_Unflatten_same)

lemma Load_steps:
  assumes "fileStep w f (koanf_New (delimiter c)) = (opened, Inr k1)"
  shows "\<exists>k2 k3.
     envStep (env_Provider (Environ w)) w c k1 = Inr k2 \<and>
     flagStep posflag_Provider f k2 = Inr k3 \<and>
     Delim k1 = delimiter c \<and> Delim k2 = delimiter c \<and>
     Load w c f cfg = (opened, materialize w (conf k3) cfg)"
proof -
  from assms have d1: "Delim k1 = delimiter c"
    by (auto dest: fileStep_Delim simp: koanf_New_def)
  from envStep_env [OF d1] obtain k2 where
    k2: "envStep (env_Provider (Environ w)) w c k1 = Inr k2" "Delim k2 = Delim k1"
    by blast
  from flagStep_posflag obtain k3 where k3: "flagStep posflag_Provider f k2 = Inr k3"
    by blast
  show ?thesis
    using assms d1 k2 k3 by (simp add: Load_def LoadWith_def)
qed

lemma cfgloader_Load_steps:
  assumes "cfgloader_fileStep w f (koanf_New (delimiter c)) = (opened, Inr k1)"
  shows "\<exists>k2 k3.
     envStep (env_Provider (Environ w)) w c k1 = Inr k2 \<and>
     cfgloader_flagStep basicflag_Provider c f k2 = Inr k3 \<and>
     Delim k1 = delimiter c \<and> Delim k2 = delimiter c \<and>
     cfgloader_Load w c f cfg = (opened, materialize w (conf k3) cfg)"
proof -
  from assms have d1: "Delim k1 = delimiter c"
    by (auto dest: cfgloader_fileStep_Delim simp: koanf_New_def)
  from envStep_env [OF d1] obtain k2 where
    k2: "envStep (env_Provider (Environ w)) w c k1 = Inr k2" "Delim k2 = Delim k1"
    by blast
  with d1 have d2: "Delim k2 = delimiter c" by simp
  from cfgloader_flagStep_basicflag [OF d2] obtain k3 where
    k3: "cfgloader_flagStep basicflag_Provider c f k2 = Inr k3"
    by blast
  show ?thesis
    using assms d1 k2 k3 by (simp add: cfgloader_Load_def cfgloader_LoadWith_def)
qed







lemma cfgloader_fileStep_Environ [simp]:
  "cfgloader_fileStep (w\<lparr>Environ := e\<rparr>) f k = cfgloader_fileStep w f k"
  by (simp add: cfgloader_fileStep_def split: option.splits)


section \<open>Overlay order\<close>


lemmas example_defs = precedenceWorld_def precedenceFlags_def defaultFlags_def testWorld_def
  testEngine_def configFlag_def intFlag_def zeroConfig_def FileArgName_def

lemmas load_defs = Load_def LoadWith_def cfgloader_Load_def cfgloader_LoadWith_def fileStep_def
  cfgloader_fileStep_def envStep_def flagStep_def cfgloader_flagStep_def materialize_def
  koanf_Load_def koanf_New_def file_Provider_def env_Provider_def posflag_Provider_def
  basicflag_Provider_def env_Read_def posflag_Read_def basicflag_Read_def Unflatten_def
  Lookup_def GetStringSlice_def stringSliceValue_def Exists_def eligible_def HasPrefix_def
  updateEnv_def TrimPrefix_def ToLower_def isASCII_def lowerByte_def

lemmas decode_defs = testDecode_def bindInt_def decodeInt_def digitsVal_def between_def


section \<open>The flag-loading step\<close>




section \<open>Eligible environment variables\<close>




section \<open>Errors of the flag-loading step\<close>


section \<open>The file-loading step\<close>

lemma loadFiles_all:
  "\<forall>p \<in> set ss. \<not> isl (file_Provider w p) \<Longrightarrow>
   loadFiles w ss k = (ss, Inr (foldl (\<lambda>k p. merge k (projr (file_Provider w p))) k ss))"
proof (induction ss arbitrary: k)
  case Nil
  then show ?case by simp
next
  case (Cons c cs)
  then obtain m where m: "file_Provider w c = Inr m"
    by (cases "file_Provider w c") auto
  with Cons show ?case
    by (simp add: koanf_Load_def)
qed

lemma loadFiles_stops:
  "\<forall>p \<in> set ok. \<not> isl (file_Provider w p) \<Longrightarrow> file_Provider w bad = Inl err \<Longrightarrow>
   loadFiles w (ok @ bad # rest) k = (ok @ [bad], Inl (LoadFile bad err))"
proof (induction ok arbitrary: k)
  case Nil
  then show ?case by (simp add: koanf_Load_def)
next
  case (Cons c cs)
  then obtain m where m: "file_Provider w c = Inr m"
    by (cases "file_Provider w c") auto
  with Cons show ?case
    by (simp add: koanf_Load_def)
qed

lemma fileStep_strings:
  "Lookup f FileArgName = Some fl \<Longrightarrow> Value fl = VStrings ss \<Longrightarrow>
   fileStep w f k = loadFiles w ss k \<and> cfgloader_fileStep w f k = loadFiles w ss k"
  by (simp add: fileStep_def cfgloader_fileStep_def GetStringSlice_def stringSliceValue_def)

text \<open>
  C7. With the option "config" holding the paths \<open>ss\<close>: when every file reads and decodes,
  the files are read in the order of \<open>ss\<close> and merged in that order; when the files \<open>ok\<close>
  read and decode and the next one, \<open>bad\<close>, does not, \<open>Load\<close> returns the error of \<open>bad\<close>
  after reading \<open>ok\<close> and \<open>bad\<close> and none of the files after it. Both packages agree.
\<close>

theorem files_in_order_fail_fast:
  assumes "Lookup f FileArgName = Some fl" and "Value fl = VStrings ss"
  shows "((\<forall>p \<in> set ss. \<not> isl (file_Provider w p)) \<longrightarrow>
       fileStep w f k = (ss, Inr (foldl (\<lambda>k p. merge k (projr (file_Provider w p))) k ss)) \<and>
       cfgloader_fileStep w f k =
         (ss, Inr (foldl (\<lambda>k p. merge k (projr (file_Provider w p))) k ss)) \<and>
       fst (Load w c f cfg) = ss \<and> fst (cfgloader_Load w c f cfg) = ss) \<and>
     (ss = ok @ bad # rest \<longrightarrow> (\<forall>p \<in> set ok. \<not> isl (file_Provider w p)) \<longrightarrow>
       file_Provider w bad = Inl err \<longrightarrow>
       Load w c f cfg = (ok @ [bad], Failed (LoadFile bad err)) \<and>
       cfgloader_Load w c f cfg = (ok @ [bad], Failed (LoadFile bad err)))"
proof (intro conjI impI)
  note fs = fileStep_strings [OF assms]
  {
    assume all: "\<forall>p \<in> set ss. \<not> isl (file_Provider w p)"
    let ?k' = "\<lambda>k. foldl (\<lambda>k p. merge k (projr (file_Provider w p))) k ss"
    from all show a: "fileStep w f k = (ss, Inr (?k' k))"
      and b: "cfgloader_fileStep w f k = (ss, Inr (?k' k))"
      by (simp_all add: fs loadFiles_all)
    from all have "fileStep w f (koanf_New (delimiter c)) = (ss, Inr (?k' (koanf_New (delimiter c))))"
      by (simp add: fs loadFiles_all)
    from Load_steps [OF this, of cfg] show "fst (Load w c f cfg) = ss"
      by auto
    from all have
      "cfgloader_fileStep w f (koanf_New (delimiter c)) = (ss, Inr (?k' (koanf_New (delimiter c))))"
      by (simp add: fs loadFiles_all)
    from cfgloader_Load_steps [OF this, of cfg] show "fst (cfgloader_Load w c f cfg) = ss"
      by auto
  }
  {
    assume "ss = ok @ bad # rest" "\<forall>p \<in> set ok. \<not> isl (file_Provider w p)"
      "file_Provider w bad = Inl err"
    then have "loadFiles w ss k = (ok @ [bad], Inl (LoadFile bad err))" for k
      by (simp add: loadFiles_stops)
    then show "Load w c f cfg = (ok @ [bad], Failed (LoadFile bad err))"
      and "cfgloader_Load w c f cfg = (ok @ [bad], Failed (LoadFile bad err))"
      by (simp_all add: Load_def LoadWith_def cfgloader_Load_def cfgloader_LoadWith_def fs)
  }
qed

theorem files_in_order_fail_fast_witness:
  "Lookup [configFlag [''testdata/good.json'', ''testdata/bad.json'', ''testdata/empty.json'']]
     FileArgName =
     Some (configFlag [''testdata/good.json'', ''testdata/bad.json'', ''testdata/empty.json'']) \<and>
   \<not> isl (file_Provider (testWorld []) ''testdata/good.json'') \<and>
   file_Provider (testWorld []) ''testdata/bad.json'' = Inl ''cannot decode'' \<and>
   Load (testWorld []) testEngine
     [configFlag [''testdata/good.json'', ''testdata/bad.json'', ''testdata/empty.json'']]
     zeroConfig =
     ([''testdata/good.json'', ''testdata/bad.json''],
      Failed (LoadFile ''testdata/bad.json'' ''cannot decode'')) \<and>
   fst (Load (testWorld []) testEngine
     [configFlag [''testdata/empty.json'', ''testdata/good.json'']] zeroConfig) =
     [''testdata/empty.json'', ''testdata/good.json'']"
proof -
  let ?fl = "configFlag [''testdata/good.json'', ''testdata/bad.json'', ''testdata/empty.json'']"
  let ?fl' = "configFlag [''testdata/empty.json'', ''testdata/good.json'']"
  have h1: "Lookup [?fl] FileArgName = Some ?fl"
    and h1': "Lookup [?fl'] FileArgName = Some ?fl'"
    by (simp_all add: Lookup_def configFlag_def FileArgName_def)
  have h2: "Value ?fl =
      VStrings ([''testdata/good.json''] @ ''testdata/bad.json'' # [''testdata/empty.json''])"
    and h2': "Value ?fl' = VStrings [''testdata/empty.json'', ''testdata/good.json'']"
    by (simp_all add: configFlag_def)
  have h3: "\<forall>p \<in> set [''testdata/good.json'']. \<not> isl (file_Provider (testWorld []) p)"
    and h3': "\<forall>p \<in> set [''testdata/empty.json'', ''testdata/good.json''].
      \<not> isl (file_Provider (testWorld []) p)"
    by (simp_all add: file_Provider_def testWorld_def)
  have h4: "file_Provider (testWorld []) ''testdata/bad.json'' = Inl ''cannot decode''"
    by (simp add: file_Provider_def testWorld_def)
  have "Load (testWorld []) testEngine [?fl] zeroConfig =
      ([''testdata/good.json''] @ [''testdata/bad.json''],
       Failed (LoadFile ''testdata/bad.json'' ''cannot decode''))"
    using files_in_order_fail_fast [OF h1 h2, where w = "testWorld []"
        and ok = "[''testdata/good.json'']" and bad = "''testdata/bad.json''"
        and rest = "[''testdata/empty.json'']" and err = "''cannot decode''"
        and c = testEngine and cfg = zeroConfig] h3 h4
    by simp
  moreover have "fst (Load (testWorld []) testEngine [?fl'] zeroConfig) =
      [''testdata/empty.json'', ''testdata/good.json'']"
    using files_in_order_fail_fast [OF h1' h2', where w = "testWorld []"
        and c = testEngine and cfg = zeroConfig] h3'
    by simp
  ultimately show ?thesis
    using h1 h3 h4 by simp
qed

text \<open>
  C8. When the flag set defines no option "config", no file is read and the file step gives
  no error: the environment step runs on the empty store, the flag step runs on its result,
  and \<open>Load\<close> returns what the materialization of that store gives. Both packages agree.
\<close>

theorem no_config_option:
  assumes "Lookup f FileArgName = None"
  shows "\<exists>(k2 :: koanf) (k3 :: koanf) (k3' :: koanf).
     envStep (env_Provider (Environ w)) w c (koanf_New (delimiter c)) = Inr k2 \<and>
     flagStep posflag_Provider f k2 = Inr k3 \<and>
     Load w c f cfg = ([], materialize w (conf k3) cfg) \<and>
     cfgloader_flagStep basicflag_Provider c f k2 = Inr k3' \<and>
     cfgloader_Load w c f cfg = ([], materialize w (conf k3') cfg)"
proof -
  from assms have a: "fileStep w f (koanf_New (delimiter c)) = ([], Inr (koanf_New (delimiter c)))"
    and b: "cfgloader_fileStep w f (koanf_New (delimiter c)) = ([], Inr (koanf_New (delimiter c)))"
    by (simp_all add: fileStep_def cfgloader_fileStep_def)
  from Load_steps [OF a, of cfg] cfgloader_Load_steps [OF b, of cfg] show ?thesis
    by fastforce
qed

theorem no_config_option_witness:
  "Lookup defaultFlags FileArgName = None \<and>
   (\<exists>(k2 :: koanf) (k3 :: koanf) (k3' :: koanf).
     envStep (env_Provider (Environ precedenceWorld)) precedenceWorld testEngine
       (koanf_New (delimiter testEngine)) = Inr k2 \<and>
     flagStep posflag_Provider defaultFlags k2 = Inr k3 \<and>
     Load precedenceWorld testEngine defaultFlags zeroConfig =
       ([], materialize precedenceWorld (conf k3) zeroConfig) \<and>
     cfgloader_flagStep basicflag_Provider testEngine defaultFlags k2 = Inr k3' \<and>
     cfgloader_Load precedenceWorld testEngine defaultFlags zeroConfig =
       ([], materialize precedenceWorld (conf k3') zeroConfig)) \<and>
   Load precedenceWorld testEngine defaultFlags zeroConfig =
     ([], Loaded \<lparr>Value1 = 102, Value2 = 0, Value3 = 0, Nested = \<lparr>NestedVal = 2\<rparr>\<rparr>)"
proof -
  have h: "Lookup defaultFlags FileArgName = None"
    by (simp add: example_defs Lookup_def)
  have "Load precedenceWorld testEngine defaultFlags zeroConfig =
     ([], Loaded \<lparr>Value1 = 102, Value2 = 0, Value3 = 0, Nested = \<lparr>NestedVal = 2\<rparr>\<rparr>)"
    by (simp add: example_defs load_defs decode_defs char_eval)
  with h no_config_option [OF h, of precedenceWorld testEngine zeroConfig] show ?thesis
    by simp
qed

section \<open>A load without input\<close>






section \<open>The two packages\<close>



end
